theory Spec2Isabelle
  imports Main
begin

section \<open>The request/response state machine (src/src/useWebWorker.ts)\<close>

text \<open>
  The status of a request is one of five string literals. The constructors carry the
  literals of the source; the events the reducer consumes are the capitalised ones below.
\<close>

datatype status = idle | pending | stale | resolved | rejected

text \<open>A JavaScript \<^verbatim>\<open>Error\<close> object, reduced to its message.\<close>

datatype jsError = Error string

text \<open>
  \<^verbatim>\<open>type State<T> = { status; result: T | null; error: Error | null }\<close>.
  \<^verbatim>\<open>null\<close> is \<open>None\<close>, and \<open>'r\<close> is the type of the values of \<open>T\<close> other than \<^verbatim>\<open>null\<close>.
\<close>

record 'r state =
  status :: status
  result :: "'r option"
  error :: "jsError option"

text \<open>
  \<^verbatim>\<open>type Action<T>\<close>: five variants, tagged by \<^verbatim>\<open>type\<close>. The \<^verbatim>\<open>rejected\<close> variant
  carries \<^verbatim>\<open>Error | null\<close>. The \<^verbatim>\<open>resolved\<close> variant carries \<^verbatim>\<open>data: T\<close>; nothing
  constrains \<open>T\<close>, and the hook passes on the \<^verbatim>\<open>e.data\<close> of a message as it is, so the
  payload may be \<^verbatim>\<open>null\<close>: it is an \<open>'r option\<close>.
\<close>

datatype 'r action =
    Idle
  | Pending
  | Stale
  | Resolved "'r option"
  | Rejected "jsError option"

text \<open>The tag of an action, as the template string of the default branch prints it.\<close>

fun action_type :: "'r action \<Rightarrow> string" where
  "action_type Idle = ''idle''"
| "action_type Pending = ''pending''"
| "action_type Stale = ''stale''"
| "action_type (Resolved d) = ''resolved''"
| "action_type (Rejected e) = ''rejected''"

text \<open>
  \<^verbatim>\<open>workerMessageReducer\<close>: a \<^verbatim>\<open>switch\<close> on the tag with four cases and a default branch
  that throws. The thrown error is \<open>Inl\<close>.
\<close>

definition workerMessageReducer :: "'r state \<Rightarrow> 'r action \<Rightarrow> jsError + 'r state" where
  "workerMessageReducer s a =
     (case a of
        Pending \<Rightarrow> Inr \<lparr>status = pending, result = result s, error = None\<rparr>
      | Stale \<Rightarrow> Inr \<lparr>status = stale, result = result s, error = None\<rparr>
      | Resolved d \<Rightarrow> Inr \<lparr>status = resolved, result = d, error = None\<rparr>
      | Rejected e \<Rightarrow> Inr \<lparr>status = rejected, result = None, error = e\<rparr>
      | _ \<Rightarrow> Inl (Error (''Unhandled action type: '' @ action_type a)))"

text \<open>
  \<^verbatim>\<open>Partial<State<Result>>\<close>: every key may be missing. The initial reducer state is the
  default object overwritten by the keys that \<^verbatim>\<open>initialState\<close> has; an omitted
  \<^verbatim>\<open>initialState\<close> spreads nothing. (A key that is present and holds \<^verbatim>\<open>undefined\<close> is
  outside this model.)
\<close>

record 'r partial_state =
  status_opt :: "status option"
  result_opt :: "'r option option"
  error_opt :: "jsError option option"

definition reducerState :: "'r partial_state option \<Rightarrow> 'r state" where
  "reducerState initialState =
     (case initialState of
        None \<Rightarrow> \<lparr>status = idle, result = None, error = None\<rparr>
      | Some p \<Rightarrow>
          \<lparr>status = (case status_opt p of None \<Rightarrow> idle | Some st \<Rightarrow> st),
           result = (case result_opt p of None \<Rightarrow> None | Some r \<Rightarrow> r),
           error = (case error_opt p of None \<Rightarrow> None | Some e \<Rightarrow> e)\<rparr>)"


text \<open>
  \<^verbatim>\<open>useReducer\<close> applies the reducer to the actions it is handed, one after the other,
  and the first throw ends the run.
\<close>

fun reduceAll :: "'r state \<Rightarrow> 'r action list \<Rightarrow> jsError + 'r state" where
  "reduceAll s [] = Inr s"
| "reduceAll s (a # as) =
     (case workerMessageReducer s a of Inl e \<Rightarrow> Inl e | Inr s' \<Rightarrow> reduceAll s' as)"

section \<open>The worker handle, seen from the main thread\<close>

text \<open>
  The three events a \<^verbatim>\<open>Worker\<close> object receives: a message with its data, an error event
  with the cause the host reports, and a message that could not be deserialised. The data
  of a message the hook receives may be \<^verbatim>\<open>null\<close>, so its events are of type
  \<open>'r option workerEvent\<close>.
\<close>

datatype 'p workerEvent = MessageEvent 'p | ErrorEvent jsError | MessageErrorEvent

text \<open>
  A \<^verbatim>\<open>Worker\<close> object: the factory that made it, whether \<^verbatim>\<open>terminate()\<close> was called, the
  data handed to \<^verbatim>\<open>postMessage\<close> so far, and its three handler slots. Every handler the
  hook installs has the shape \<^verbatim>\<open>(e) => dispatch(A e)\<close>; a slot holds the function \<open>A\<close>,
  and \<open>fire\<close> below supplies the call of \<^verbatim>\<open>dispatch\<close>.
\<close>

record ('i, 'r) worker =
  createdBy :: nat
  terminated :: bool
  posted :: "'i list"
  onmessage :: "('r option \<Rightarrow> 'r action) option"
  onerror :: "(jsError \<Rightarrow> 'r action) option"
  onmessageerror :: "'r action option"

definition newWorker :: "nat \<Rightarrow> ('i, 'r) worker" where
  "newWorker f = \<lparr>createdBy = f, terminated = False, posted = [],
     onmessage = None, onerror = None, onmessageerror = None\<rparr>"

text \<open>The content of a store address at which no worker was created yet.\<close>

definition noWorker :: "('i, 'r) worker" where
  "noWorker = \<lparr>createdBy = 0, terminated = True, posted = [],
     onmessage = None, onerror = None, onmessageerror = None\<rparr>"

section \<open>The hook \<^verbatim>\<open>useWebWorker\<close>\<close>

text \<open>
  The memory of one call site of the hook, with the workers it has created:
  \<^item> \<open>heap\<close>, \<open>nextWorker\<close>: the store of \<^verbatim>\<open>Worker\<close> objects and the next fresh address;
  \<^item> \<open>state\<close>: the state \<^verbatim>\<open>useReducer\<close> holds; \<open>dispatched\<close>: the actions that reached
    React's own \<^verbatim>\<open>dispatch\<close> (the \<^verbatim>\<open>unsafeDispatch\<close> of the source), oldest first;
  \<^item> \<open>mounted\<close>: the ref of \<^verbatim>\<open>useSafeDispatch\<close>;
  \<^item> \<open>createWorkerDep\<close>, \<open>worker\<close>: the dependency and the value of the \<^verbatim>\<open>useMemo\<close>;
  \<^item> \<open>lastWorker\<close>: the ref of that name;
  \<^item> \<open>workerDep\<close>: the dependency of the first effect at its last run, which is also the
    worker its cleanup closes over;
  \<^item> \<open>inputDep\<close>: the dependency of the second effect at its last run.

  A factory \<^verbatim>\<open>createWorker\<close> is a natural number, its identity; calling it allocates a
  fresh worker. React compares dependencies with \<^verbatim>\<open>Object.is\<close>: equality of \<open>'i\<close> stands
  for the identity of the input.
\<close>

record ('i, 'r) hook =
  heap :: "nat \<Rightarrow> ('i, 'r) worker"
  nextWorker :: nat
  state :: "'r state"
  dispatched :: "'r action list"
  mounted :: bool
  createWorkerDep :: nat
  worker :: nat
  lastWorker :: nat
  workerDep :: nat
  inputDep :: 'i

text \<open>
  React's \<^verbatim>\<open>dispatch\<close>: the reducer runs on the current state; a throw of the reducer
  surfaces as the error of the update.
\<close>

definition unsafeDispatch :: "'r action \<Rightarrow> ('i, 'r) hook \<Rightarrow> jsError + ('i, 'r) hook" where
  "unsafeDispatch a h =
     (case workerMessageReducer (state h) a of
        Inl e \<Rightarrow> Inl e
      | Inr s' \<Rightarrow> Inr (h\<lparr>state := s', dispatched := dispatched h @ [a]\<rparr>))"

text \<open>
  The callback \<^verbatim>\<open>useSafeDispatch\<close> returns:
  \<^verbatim>\<open>(action) => (mounted.current ? dispatch(action) : void 0)\<close>.
\<close>

definition useSafeDispatch ::
  "('r action \<Rightarrow> ('i, 'r) hook \<Rightarrow> jsError + ('i, 'r) hook) \<Rightarrow>
   'r action \<Rightarrow> ('i, 'r) hook \<Rightarrow> jsError + ('i, 'r) hook" where
  "useSafeDispatch d a h = (if mounted h then d a h else Inr h)"

definition dispatch :: "'r action \<Rightarrow> ('i, 'r) hook \<Rightarrow> jsError + ('i, 'r) hook" where
  "dispatch = useSafeDispatch unsafeDispatch"

text \<open>
  The call of the factory inside \<^verbatim>\<open>useMemo\<close>, which allocates a fresh worker and stores it
  with its dependency, and the two methods of a worker the hook calls. \<open>posted\<close> records
  every call of \<^verbatim>\<open>postMessage\<close>.
\<close>

definition createWorker :: "nat \<Rightarrow> ('i, 'r) hook \<Rightarrow> ('i, 'r) hook" where
  "createWorker f h =
     h\<lparr>heap := (heap h)(nextWorker h := newWorker f), nextWorker := Suc (nextWorker h),
       worker := nextWorker h, createWorkerDep := f\<rparr>"

definition terminate :: "nat \<Rightarrow> ('i, 'r) hook \<Rightarrow> ('i, 'r) hook" where
  "terminate w h = h\<lparr>heap := (heap h)(w := (heap h w)\<lparr>terminated := True\<rparr>)\<rparr>"

definition postMessage :: "nat \<Rightarrow> 'i \<Rightarrow> ('i, 'r) hook \<Rightarrow> ('i, 'r) hook" where
  "postMessage w x h = h\<lparr>heap := (heap h)(w := (heap h w)\<lparr>posted := posted (heap h w) @ [x]\<rparr>)\<rparr>"

text \<open>
  The body of the first effect (dependencies \<^verbatim>\<open>[worker]\<close>): it stores the worker in
  \<^verbatim>\<open>lastWorker\<close> and installs the three handlers. Its cleanup is \<open>terminate\<close> on the worker
  the effect ran with.
\<close>

definition workerEffect :: "('i, 'r) hook \<Rightarrow> ('i, 'r) hook" where
  "workerEffect h =
     (let w = worker h in
      h\<lparr>lastWorker := w,
        heap := (heap h)(w := (heap h w)
          \<lparr>onmessage := Some Resolved,
           onerror := Some (\<lambda>_. Rejected (Some (Error ''Worker error''))),
           onmessageerror := Some (Rejected (Some (Error ''Worker message error'')))\<rparr>),
        workerDep := w\<rparr>)"

text \<open>
  The body of the second effect (dependencies \<^verbatim>\<open>[input]\<close>): one dispatch, chosen by the
  status, then \<^verbatim>\<open>lastWorker.current.postMessage(input)\<close>.
\<close>

definition inputEffect :: "'i \<Rightarrow> ('i, 'r) hook \<Rightarrow> jsError + ('i, 'r) hook" where
  "inputEffect x h =
     (case (if status (state h) = resolved then dispatch Stale h else dispatch Pending h) of
        Inl e \<Rightarrow> Inl e
      | Inr h' \<Rightarrow> Inr (postMessage (lastWorker h') x (h'\<lparr>inputDep := x\<rparr>)))"

text \<open>
  The first render and its commit: \<^verbatim>\<open>useReducer\<close> takes the initial state, the ref of
  \<^verbatim>\<open>useSafeDispatch\<close> starts false, \<^verbatim>\<open>useMemo\<close> calls the factory, \<^verbatim>\<open>lastWorker\<close> starts
  at that worker; then the layout effect sets the ref, and the two effects run in the
  order of the source.
\<close>

definition mount :: "nat \<Rightarrow> 'i \<Rightarrow> 'r partial_state option \<Rightarrow> jsError + ('i, 'r) hook" where
  "mount f x initialState =
     (let h = \<lparr>heap = (\<lambda>_. noWorker)(0 := newWorker f), nextWorker = 1,
                state = reducerState initialState, dispatched = [], mounted = False,
                createWorkerDep = f, worker = 0, lastWorker = 0, workerDep = 0,
                inputDep = x\<rparr>;
          h = h\<lparr>mounted := True\<rparr>;
          h = workerEffect h
      in inputEffect x h)"

text \<open>
  A later render and its commit: \<^verbatim>\<open>useMemo\<close> calls the factory again only when its
  identity changed; an effect runs only when its dependency changed, the first one after
  the cleanup of its previous run.
\<close>

definition update :: "nat \<Rightarrow> 'i \<Rightarrow> ('i, 'r) hook \<Rightarrow> jsError + ('i, 'r) hook" where
  "update f x h =
     (let h = (if f = createWorkerDep h then h else createWorker f h);
          h = (if worker h = workerDep h then h else workerEffect (terminate (workerDep h) h))
      in if x = inputDep h then Inr h else inputEffect x h)"

text \<open>Unmounting runs the cleanup of the layout effect and the cleanup of the first effect.\<close>

definition unmount :: "('i, 'r) hook \<Rightarrow> ('i, 'r) hook" where
  "unmount h = terminate (workerDep h) (h\<lparr>mounted := False\<rparr>)"

text \<open>
  \<open>fire\<close> calls the handler found in a slot of a worker, as a test does that invokes a
  bound observer by hand. \<open>deliver\<close> is the host: a terminated worker delivers no event.
\<close>

definition fire ::
  "nat \<Rightarrow> 'r option workerEvent \<Rightarrow> ('i, 'r) hook \<Rightarrow> jsError + ('i, 'r) hook" where
  "fire w ev h =
     (case ev of
        MessageEvent d \<Rightarrow>
          (case onmessage (heap h w) of None \<Rightarrow> Inr h | Some k \<Rightarrow> dispatch (k d) h)
      | ErrorEvent c \<Rightarrow>
          (case onerror (heap h w) of None \<Rightarrow> Inr h | Some k \<Rightarrow> dispatch (k c) h)
      | MessageErrorEvent \<Rightarrow>
          (case onmessageerror (heap h w) of None \<Rightarrow> Inr h | Some a \<Rightarrow> dispatch a h))"

definition deliver ::
  "nat \<Rightarrow> 'r option workerEvent \<Rightarrow> ('i, 'r) hook \<Rightarrow> jsError + ('i, 'r) hook" where
  "deliver w ev h = (if terminated (heap h w) then Inr h else fire w ev h)"

text \<open>
  What can happen to a mounted hook, and a history of such happenings. The first throw
  ends a history.
\<close>

datatype ('i, 'r) event =
    Render nat 'i
  | Unmount
  | Deliver nat "'r option workerEvent"
  | Fire nat "'r option workerEvent"
  | Dispatch "'r action"

fun step :: "('i, 'r) event \<Rightarrow> ('i, 'r) hook \<Rightarrow> jsError + ('i, 'r) hook" where
  "step (Render f x) h = update f x h"
| "step Unmount h = Inr (unmount h)"
| "step (Deliver w ev) h = deliver w ev h"
| "step (Fire w ev) h = fire w ev h"
| "step (Dispatch a) h = dispatch a h"

fun run :: "('i, 'r) event list \<Rightarrow> jsError + ('i, 'r) hook \<Rightarrow> jsError + ('i, 'r) hook" where
  "run [] r = r"
| "run (ev # evs) r = (case r of Inl e \<Rightarrow> Inl e | Inr h \<Rightarrow> run evs (step ev h))"

text \<open>The events that may still arrive after the hook was unmounted.\<close>

fun late :: "('i, 'r) event \<Rightarrow> bool" where
  "late (Deliver w ev) = True"
| "late (Fire w ev) = True"
| "late (Dispatch a) = True"
| "late _ = False"

text \<open>
  What holds of the hook's memory between two commits while it is mounted: the ref of
  \<^verbatim>\<open>useSafeDispatch\<close> is set, both effects have run with the memoised worker, and that
  worker was allocated.
\<close>

definition live :: "('i, 'r) hook \<Rightarrow> bool" where
  "live h \<longleftrightarrow>
     mounted h \<and> workerDep h = worker h \<and> lastWorker h = worker h \<and> worker h < nextWorker h"

text \<open>A mounted hook to evaluate on: factory 0, input 5, no \<^verbatim>\<open>initialState\<close>.\<close>

abbreviation demo :: "(nat, nat) hook" where
  "demo \<equiv> projr (mount 0 5 None)"

text \<open>The same hook after its worker answered 7.\<close>

abbreviation answered :: "(nat, nat) hook" where
  "answered \<equiv> projr (deliver 0 (MessageEvent (Some 7)) demo)"

text \<open>
  The criterion in the words of the specification, to compare the hook with: reading the
  actions dispatched so far from the oldest, a resolved value exists when a Resolved event
  has fired since the last Rejected event or the idle baseline.
\<close>

definition spec_resolvedSinceBaseline :: "'r action list \<Rightarrow> bool" where
  "spec_resolvedSinceBaseline log =
     foldl (\<lambda>b a. case a of Resolved d \<Rightarrow> True | Rejected e \<Rightarrow> False | _ \<Rightarrow> b) False log"

section \<open>The worker entry (src/src/registerWorker.ts)\<close>

text \<open>
  The caller's function may throw: \<open>func x = Inl e\<close>. The function a caller promises to be
  pure and total is \<open>\<lambda>x. Inr (f x)\<close>.

  The global scope \<^verbatim>\<open>self\<close> of the worker has one \<^verbatim>\<open>onmessage\<close> slot, and \<open>outbox\<close> lists
  the data handed to \<^verbatim>\<open>self.postMessage\<close>, oldest first. The handler \<^verbatim>\<open>registerWorker\<close>
  installs closes over \<^verbatim>\<open>func\<close> and nothing else, so the slot holds \<^verbatim>\<open>func\<close>.
\<close>

record ('i, 'r) scope =
  self_onmessage :: "('i \<Rightarrow> jsError + 'r) option"
  outbox :: "'r list"

text \<open>
  The promise an \<^verbatim>\<open>async\<close> function returns, once settled, and the two ways a call of a
  JavaScript function completes.
\<close>

datatype promise = Fulfilled | RejectedWith jsError

datatype completion = Returned promise | Threw jsError

text \<open>
  The body of the handler: \<^verbatim>\<open>const result = func(event.data); self.postMessage(result);\<close>.
  A throw of \<^verbatim>\<open>func\<close> leaves the body before \<^verbatim>\<open>postMessage\<close>.
\<close>

definition handlerBody ::
  "('i \<Rightarrow> jsError + 'r) \<Rightarrow> 'i \<Rightarrow> ('i, 'r) scope \<Rightarrow> (jsError + unit) \<times> ('i, 'r) scope" where
  "handlerBody func x sc =
     (case func x of
        Inl e \<Rightarrow> (Inl e, sc)
      | Inr r \<Rightarrow> (Inr (), sc\<lparr>outbox := outbox sc @ [r]\<rparr>))"

text \<open>
  The handler is declared \<^verbatim>\<open>async\<close>. A call of an async function always returns a
  promise: the body runs at once up to its first \<^verbatim>\<open>await\<close> (here, to its end), and a
  throw inside it rejects the promise instead of leaving the call.
\<close>

definition async :: "(jsError + unit) \<times> 's \<Rightarrow> completion \<times> 's" where
  "async r =
     (case fst r of
        Inl e \<Rightarrow> (Returned (RejectedWith e), snd r)
      | Inr _ \<Rightarrow> (Returned Fulfilled, snd r))"

definition handler ::
  "('i \<Rightarrow> jsError + 'r) \<Rightarrow> 'i \<Rightarrow> ('i, 'r) scope \<Rightarrow> completion \<times> ('i, 'r) scope" where
  "handler func x sc = async (handlerBody func x sc)"

definition registerWorker :: "('i \<Rightarrow> jsError + 'r) \<Rightarrow> ('i, 'r) scope \<Rightarrow> ('i, 'r) scope" where
  "registerWorker func sc = sc\<lparr>self_onmessage := Some func\<rparr>"

text \<open>
  The host hands one inbound message to the scope: it calls the handler in the slot, if
  there is one, and sees how the call completes.
\<close>

definition receive :: "'i \<Rightarrow> ('i, 'r) scope \<Rightarrow> completion option \<times> ('i, 'r) scope" where
  "receive x sc =
     (case self_onmessage sc of
        None \<Rightarrow> (None, sc)
      | Some func \<Rightarrow> (case handler func x sc of (c, sc') \<Rightarrow> (Some c, sc')))"

fun receiveAll :: "'i list \<Rightarrow> ('i, 'r) scope \<Rightarrow> ('i, 'r) scope" where
  "receiveAll [] sc = sc"
| "receiveAll (x # xs) sc = receiveAll xs (snd (receive x sc))"

text \<open>
  The exception the host reports for a handler call, which is what becomes the error
  event of the \<^verbatim>\<open>Worker\<close> object on the main thread: the one the call threw. A call that
  returned, whatever the state of the promise it returned, reports none.
\<close>

fun reported :: "completion option \<Rightarrow> jsError option" where
  "reported (Some (Threw e)) = Some e"
| "reported _ = None"

text \<open>
  The events the host sends to the \<^verbatim>\<open>Worker\<close> object for one inbound message: a message
  event for each datum the scope posted while handling it, then an error event if the
  handler call reported an exception.
\<close>

definition answer :: "'i \<Rightarrow> ('i, 'p) scope \<Rightarrow> 'p workerEvent list" where
  "answer x sc =
     (case receive x sc of
        (c, sc') \<Rightarrow>
          map MessageEvent (drop (length (outbox sc)) (outbox sc'))
          @ (case reported c of None \<Rightarrow> [] | Some e \<Rightarrow> [ErrorEvent e]))"

text \<open>
  A caller's function that throws on one input, to evaluate the entry on. Its results are
  payloads as the hook receives them, none of them \<^verbatim>\<open>null\<close>.
\<close>

definition throwingFunc :: "nat \<Rightarrow> jsError + nat option" where
  "throwingFunc x =
     (if x = 0 then Inl (Error ''division by zero'') else Inr (Some (100 div x)))"

section \<open>Properties of the reducer\<close>

text \<open>
  C1: on each of the four events Pending, Stale, Resolved d and Rejected e, and from every
  state (so from each of the five statuses), the reducer returns exactly the row of the
  transition table; and whenever the state it returns has an error, the event was a
  Rejected one.
\<close>

theorem reducer_transition_table:
  "workerMessageReducer s Pending = Inr \<lparr>status = pending, result = result s, error = None\<rparr>
   \<and> workerMessageReducer s Stale = Inr \<lparr>status = stale, result = result s, error = None\<rparr>
   \<and> workerMessageReducer s (Resolved d) = Inr \<lparr>status = resolved, result = d, error = None\<rparr>
   \<and> workerMessageReducer s (Rejected e) = Inr \<lparr>status = rejected, result = None, error = e\<rparr>
   \<and> (\<forall>a s'. workerMessageReducer s a = Inr s' \<and> error s' \<noteq> None \<longrightarrow> a = Rejected (error s'))"
  by (auto simp: workerMessageReducer_def split: action.splits)

theorem reducer_transition_table_witness:
  "workerMessageReducer \<lparr>status = resolved, result = Some (3::nat), error = None\<rparr>
       (Rejected (Some (Error ''Worker error'')))
     = Inr \<lparr>status = rejected, result = None, error = Some (Error ''Worker error'')\<rparr>
   \<and> error \<lparr>status = rejected, result = None :: nat option, error = Some (Error ''Worker error'')\<rparr>
       \<noteq> None"
  using reducer_transition_table
    [of "\<lparr>status = resolved, result = Some (3::nat), error = None\<rparr>" None
      "Some (Error ''Worker error'')"]
  by simp

text \<open>
  C2, as the code has it: Pending and Stale leave the result as it was, Rejected sets it to
  absent whatever it was, and Resolved sets it to its payload. An event after which a
  present result is absent is a Rejected one or a Resolved one whose payload is null, and
  an event after which the result is present and differs from the one before is a
  Resolved one carrying it.
\<close>

theorem reducer_result_frame:
  "(\<exists>s'. workerMessageReducer s Pending = Inr s' \<and> result s' = result s)
   \<and> (\<exists>s'. workerMessageReducer s Stale = Inr s' \<and> result s' = result s)
   \<and> (\<exists>s'. workerMessageReducer s (Rejected e) = Inr s' \<and> result s' = None)
   \<and> (\<exists>s'. workerMessageReducer s (Resolved d) = Inr s' \<and> result s' = d)
   \<and> (\<forall>a s'. workerMessageReducer s a = Inr s' \<and> result s \<noteq> None \<and> result s' = None
         \<longrightarrow> (\<exists>e'. a = Rejected e') \<or> a = Resolved None)
   \<and> (\<forall>a s'. workerMessageReducer s a = Inr s' \<and> result s' \<noteq> result s \<and> result s' \<noteq> None
         \<longrightarrow> a = Resolved (result s'))"
  by (auto simp: workerMessageReducer_def split: action.splits)

theorem reducer_result_frame_witness:
  "workerMessageReducer \<lparr>status = stale, result = Some (3::nat), error = None\<rparr> (Rejected None)
     = Inr \<lparr>status = rejected, result = None, error = None\<rparr>
   \<and> workerMessageReducer \<lparr>status = stale, result = Some (3::nat), error = None\<rparr>
       (Resolved (Some 4))
     = Inr \<lparr>status = resolved, result = Some 4, error = None\<rparr>
   \<and> result \<lparr>status = stale, result = Some (3::nat), error = None\<rparr> \<noteq> None
   \<and> result \<lparr>status = rejected, result = None :: nat option, error = None\<rparr> = None
   \<and> result \<lparr>status = resolved, result = Some (4::nat), error = None\<rparr>
       \<noteq> result \<lparr>status = stale, result = Some (3::nat), error = None\<rparr>
   \<and> result \<lparr>status = resolved, result = Some (4::nat), error = None\<rparr> \<noteq> None"
  using reducer_result_frame
    [of "\<lparr>status = stale, result = Some (3::nat), error = None\<rparr>" None "Some 4"]
  by (simp add: workerMessageReducer_def)

text \<open>
  C2 as the specification states it fails: from the state stale with result 3, the event
  Resolved with a null payload, which is not a Rejected event, returns a state whose
  result is absent.
\<close>

theorem resolved_null_clears_result_counterexample:
  "result \<lparr>status = stale, result = Some (3::nat), error = None\<rparr> = Some 3
   \<and> action_type (Resolved None :: nat action) = ''resolved''
   \<and> workerMessageReducer \<lparr>status = stale, result = Some (3::nat), error = None\<rparr>
       (Resolved None)
     = Inr \<lparr>status = resolved, result = None, error = None\<rparr>"
  by (simp add: workerMessageReducer_def)

text \<open>
  C9: the action type has a fifth variant, idle, for which the switch has no case. From
  every state it reaches the default branch and throws \<^verbatim>\<open>Unhandled action type: idle\<close>;
  the reducer returns a state exactly on the other four.
\<close>

theorem reducer_idle_throws:
  "workerMessageReducer s Idle = Inl (Error ''Unhandled action type: idle'')
   \<and> ((\<exists>s'. workerMessageReducer s a = Inr s') \<longleftrightarrow> a \<noteq> Idle)"
  by (cases a) (simp_all add: workerMessageReducer_def)

theorem reducer_idle_throws_witness:
  "workerMessageReducer \<lparr>status = pending, result = Some (3::nat), error = None\<rparr> Idle
     = Inl (Error ''Unhandled action type: idle'')
   \<and> (\<exists>s'. workerMessageReducer \<lparr>status = pending, result = Some (3::nat), error = None\<rparr> Stale
         = Inr s')
   \<and> (Stale :: nat action) \<noteq> Idle"
  using reducer_idle_throws
    [of "\<lparr>status = pending, result = Some (3::nat), error = None\<rparr>" Stale]
  by simp

lemma reducer_status_not_idle:
  "workerMessageReducer s a = Inr s' \<Longrightarrow> status s' \<noteq> idle"
  by (auto simp: workerMessageReducer_def split: action.splits)

lemma reduceAll_status_not_idle:
  "reduceAll s as = Inr s' \<Longrightarrow> as \<noteq> [] \<Longrightarrow> status s' \<noteq> idle"
proof (induction as arbitrary: s)
  case Nil
  then show ?case by simp
next
  case (Cons a as)
  from Cons.prems(1) obtain s1 where a: "workerMessageReducer s a = Inr s1"
    and rest: "reduceAll s1 as = Inr s'"
    by (auto split: sum.splits)
  show ?case
  proof (cases as)
    case Nil
    with rest have "s' = s1" by simp
    with a show ?thesis by (simp add: reducer_status_not_idle)
  next
    case (Cons b bs)
    with Cons.IH [OF rest] show ?thesis by simp
  qed
qed

text \<open>
  C10: no transition of the reducer returns a state whose status is idle, so after one or
  more actions the status is never idle; idle is the status of the default initial state,
  and of an initial state whose caller supplies it or supplies no status.
\<close>

theorem reducer_never_idle:
  "(\<forall>a s'. workerMessageReducer s a = Inr s' \<longrightarrow> status s' \<noteq> idle)
   \<and> (\<forall>as s'. reduceAll s as = Inr s' \<and> as \<noteq> [] \<longrightarrow> status s' \<noteq> idle)
   \<and> status (reducerState None :: 'r state) = idle
   \<and> (status (reducerState (Some p) :: 'r state) = idle
        \<longleftrightarrow> status_opt p = None \<or> status_opt p = Some idle)"
  by (auto simp: reducer_status_not_idle reducerState_def
      dest: reduceAll_status_not_idle split: option.splits)

theorem reducer_never_idle_witness:
  "workerMessageReducer (reducerState None) (Resolved (Some (3::nat)))
     = Inr \<lparr>status = resolved, result = Some 3, error = None\<rparr>
   \<and> reduceAll (reducerState None) [Pending, Resolved (Some (3::nat)), Stale]
     = Inr \<lparr>status = stale, result = Some 3, error = None\<rparr>
   \<and> status \<lparr>status = resolved, result = Some (3::nat), error = None\<rparr> \<noteq> idle
   \<and> status \<lparr>status = stale, result = Some (3::nat), error = None\<rparr> \<noteq> idle"
  using reducer_never_idle [of "reducerState None :: nat state"]
  by (simp add: workerMessageReducer_def reducerState_def)

section \<open>Properties of the hook\<close>

lemmas hook_defs = dispatch_def useSafeDispatch_def unsafeDispatch_def workerMessageReducer_def
  createWorker_def terminate_def postMessage_def workerEffect_def inputEffect_def
  update_def unmount_def fire_def deliver_def mount_def reducerState_def newWorker_def
  noWorker_def

lemma dispatch_pre:
  "mounted h \<Longrightarrow> a = Pending \<or> a = Stale \<Longrightarrow>
     dispatch a h =
       Inr (h\<lparr>state := \<lparr>status = (if a = Stale then stale else pending),
                         result = result (state h), error = None\<rparr>,
              dispatched := dispatched h @ [a]\<rparr>)"
  by (auto simp: dispatch_def useSafeDispatch_def unsafeDispatch_def workerMessageReducer_def)

subsection \<open>The memory of a mounted hook stays well formed\<close>

lemma mount_live: "mount f x i = Inr h \<Longrightarrow> live h"
  by (auto simp: mount_def Let_def workerEffect_def inputEffect_def dispatch_pre
      postMessage_def live_def split: if_splits)

lemma dispatch_live: "live h \<Longrightarrow> dispatch a h = Inr h' \<Longrightarrow> live h'"
  by (auto simp: live_def dispatch_def useSafeDispatch_def unsafeDispatch_def
      split: sum.splits)

lemma fire_live: "live h \<Longrightarrow> fire w ev h = Inr h' \<Longrightarrow> live h'"
  by (auto simp: fire_def dest: dispatch_live split: workerEvent.splits option.splits)

lemma update_live: "live h \<Longrightarrow> update f x h = Inr h' \<Longrightarrow> live h'"
  by (auto simp: live_def update_def inputEffect_def dispatch_pre Let_def createWorker_def
      workerEffect_def terminate_def postMessage_def split: if_splits)

lemma step_live: "live h \<Longrightarrow> ev \<noteq> Unmount \<Longrightarrow> step ev h = Inr h' \<Longrightarrow> live h'"
  by (cases ev)
    (auto simp: deliver_def dest: update_live fire_live dispatch_live split: if_splits)

lemma run_live:
  "live h \<Longrightarrow> list_all (\<lambda>ev. ev \<noteq> Unmount) evs \<Longrightarrow> run evs (Inr h) = Inr h' \<Longrightarrow> live h'"
proof (induction evs arbitrary: h)
  case Nil
  then show ?case by simp
next
  case (Cons ev evs)
  show ?case
  proof (cases "step ev h")
    case (Inl e)
    with Cons.prems(3) have "run evs (Inl e) = Inr h'" by simp
    then show ?thesis by (cases evs) simp_all
  next
    case (Inr h1)
    with Cons.prems have "live h1" "list_all (\<lambda>ev. ev \<noteq> Unmount) evs" "run evs (Inr h1) = Inr h'"
      by (auto dest: step_live)
    then show ?thesis by (rule Cons.IH)
  qed
qed

lemma demo_live: "live demo"
  by (simp add: live_def hook_defs Let_def)

subsection \<open>The guarded dispatcher\<close>

lemma step_late_unmounted: "\<not> mounted h \<Longrightarrow> late ev \<Longrightarrow> step ev h = Inr h"
  by (cases ev)
    (auto simp: deliver_def fire_def dispatch_def useSafeDispatch_def
      split: workerEvent.splits option.splits)

lemma run_late_unmounted:
  "\<not> mounted h \<Longrightarrow> list_all late evs \<Longrightarrow> run evs (Inr h) = Inr h"
  by (induction evs) (simp_all add: step_late_unmounted)

text \<open>
  C3: while the ref is false the guarded dispatcher returns without calling the dispatcher
  it wraps, whatever the action; while it is true it hands the action on unchanged.
  Unmounting sets the ref to false, and after it no history of late events (deliveries by
  the host, observers called by hand, calls of the guarded dispatcher with any action)
  changes anything in the hook's memory, so the state snapshot stays what it was.
\<close>

theorem safe_dispatch_guard:
  "(\<not> mounted h \<longrightarrow> useSafeDispatch d a h = Inr h \<and> dispatch a h = Inr h)
   \<and> (mounted h \<longrightarrow> useSafeDispatch d a h = d a h \<and> dispatch a h = unsafeDispatch a h)
   \<and> \<not> mounted (unmount h)
   \<and> (list_all late evs \<longrightarrow> run evs (Inr (unmount h)) = Inr (unmount h))"
proof -
  have off: "\<not> mounted (unmount h)"
    by (simp add: unmount_def terminate_def)
  then show ?thesis
    by (simp add: useSafeDispatch_def dispatch_def run_late_unmounted)
qed

theorem safe_dispatch_guard_witness:
  "mounted demo
   \<and> dispatch (Resolved (Some 7)) demo = unsafeDispatch (Resolved (Some 7)) demo
   \<and> \<not> mounted (unmount demo)
   \<and> dispatch (Resolved (Some 7)) (unmount demo) = Inr (unmount demo)
   \<and> list_all late [Fire 0 (MessageEvent (Some 7)), Deliver 0 (ErrorEvent (Error ''late'')),
                    Dispatch (Rejected None), Dispatch Idle :: (nat, nat) event]
   \<and> run [Fire 0 (MessageEvent (Some 7)), Deliver 0 (ErrorEvent (Error ''late'')),
           Dispatch (Rejected None), Dispatch Idle] (Inr (unmount demo))
       = Inr (unmount demo)"
proof -
  have on: "mounted demo"
    using demo_live by (simp add: live_def)
  have lt: "list_all late [Fire 0 (MessageEvent (Some 7)), Deliver 0 (ErrorEvent (Error ''late'')),
                    Dispatch (Rejected None), Dispatch Idle :: (nat, nat) event]"
    by simp
  from on lt
    safe_dispatch_guard [of demo unsafeDispatch "Resolved (Some 7)"
      "[Fire 0 (MessageEvent (Some 7)), Deliver 0 (ErrorEvent (Error ''late'')),
        Dispatch (Rejected None), Dispatch Idle]"]
    safe_dispatch_guard [of "unmount demo" unsafeDispatch "Resolved (Some 7)" "[]"]
  show ?thesis by blast
qed

subsection \<open>Changes of the input and of the factory\<close>

lemma answered_live: "live answered"
  by (simp add: live_def hook_defs Let_def)

text \<open>
  C5: a render of a mounted hook with an input of a new identity dispatches exactly one
  action, Stale if the status is resolved and Pending for each other status, and then
  posts the new input to the worker that is current after that render (\<open>lastWorker\<close> is
  that worker). A render with the same input dispatches nothing. The first render counts
  as a change of the input, with the status of the initial state.
\<close>

theorem input_change_dispatch:
  "(live h \<and> x \<noteq> inputDep h \<longrightarrow>
     (\<exists>h'. update f x h = Inr h'
       \<and> dispatched h' = dispatched h @ [if status (state h) = resolved then Stale else Pending]
       \<and> state h' = \<lparr>status = (if status (state h) = resolved then stale else pending),
                      result = result (state h), error = None\<rparr>
       \<and> lastWorker h' = worker h'
       \<and> posted (heap h' (worker h'))
           = (if f = createWorkerDep h then posted (heap h (worker h)) else []) @ [x]))
   \<and> (live h \<and> x = inputDep h \<longrightarrow>
     (\<exists>h'. update f x h = Inr h' \<and> dispatched h' = dispatched h \<and> state h' = state h))
   \<and> (\<exists>h'. mount f x i = Inr h'
       \<and> dispatched h' = [if status (reducerState i) = resolved then Stale else Pending]
       \<and> state h' = \<lparr>status = (if status (reducerState i) = resolved then stale else pending),
                      result = result (reducerState i), error = None\<rparr>
       \<and> lastWorker h' = worker h'
       \<and> posted (heap h' (worker h')) = [x])"
  by (auto simp: live_def update_def mount_def inputEffect_def dispatch_pre Let_def
      createWorker_def workerEffect_def terminate_def postMessage_def newWorker_def)

theorem input_change_dispatch_witness:
  "live demo \<and> status (state demo) = pending \<and> inputDep demo \<noteq> 6
   \<and> \<not> isl (update 0 6 demo)
   \<and> dispatched (projr (update 0 6 demo)) = dispatched demo @ [Pending]
   \<and> posted (heap (projr (update 0 6 demo)) (worker (projr (update 0 6 demo)))) = [5, 6]
   \<and> live answered \<and> status (state answered) = resolved \<and> inputDep answered \<noteq> 6
   \<and> \<not> isl (update 0 6 answered)
   \<and> dispatched (projr (update 0 6 answered)) = dispatched answered @ [Stale]
   \<and> state (projr (update 0 6 answered)) = \<lparr>status = stale, result = Some 7, error = None\<rparr>
   \<and> dispatched (projr (update 0 5 answered)) = dispatched answered"
proof -
  have d: "status (state demo) = pending" "inputDep demo \<noteq> 6"
    "posted (heap demo (worker demo)) = [5]" "createWorkerDep demo = 0"
    by (simp_all add: hook_defs Let_def)
  have a: "status (state answered) = resolved" "inputDep answered \<noteq> 6"
    "inputDep answered = 5" "result (state answered) = Some 7"
    by (simp_all add: hook_defs Let_def)
  from input_change_dispatch [of demo 6 0] demo_live d
  obtain h1 where h1: "update 0 6 demo = Inr h1"
    "dispatched h1 = dispatched demo @ [Pending]"
    "posted (heap h1 (worker h1)) = [5, 6]"
    by auto
  from input_change_dispatch [of answered 6 0] answered_live a
  obtain h2 where h2: "update 0 6 answered = Inr h2"
    "dispatched h2 = dispatched answered @ [Stale]"
    "state h2 = \<lparr>status = stale, result = Some 7, error = None\<rparr>"
    by auto
  from input_change_dispatch [of answered 5 0] answered_live a
  obtain h3 where h3: "update 0 5 answered = Inr h3" "dispatched h3 = dispatched answered"
    by auto
  from demo_live answered_live d a h1 h2 h3 show ?thesis by simp
qed

text \<open>
  C4, as the code has it: a render of a mounted hook with a factory of a new identity
  terminates the worker in use, after which the host delivers none of its events; it
  creates a worker from the new factory, installs the three observers on it and makes it
  the current one. A request goes to the new worker only if the identity of the input
  changed in the same render: with the input unchanged nothing is posted to it, nothing
  is dispatched, and the state stays as it was.
\<close>

theorem recipe_change_recreates_handle:
  assumes "live h" and "f \<noteq> createWorkerDep h"
  shows "\<exists>h'. update f x h = Inr h'
    \<and> terminated (heap h' (worker h))
    \<and> (\<forall>ev. deliver (worker h) ev h' = Inr h')
    \<and> worker h' = nextWorker h \<and> worker h' \<noteq> worker h
    \<and> createdBy (heap h' (worker h')) = f
    \<and> \<not> terminated (heap h' (worker h'))
    \<and> onmessage (heap h' (worker h')) = Some Resolved
    \<and> onerror (heap h' (worker h')) = Some (\<lambda>_. Rejected (Some (Error ''Worker error'')))
    \<and> onmessageerror (heap h' (worker h'))
        = Some (Rejected (Some (Error ''Worker message error'')))
    \<and> lastWorker h' = worker h'
    \<and> posted (heap h' (worker h')) = (if x = inputDep h then [] else [x])
    \<and> (x = inputDep h \<longrightarrow> state h' = state h \<and> dispatched h' = dispatched h)"
  using assms
  by (auto simp: live_def update_def inputEffect_def dispatch_pre Let_def createWorker_def
      workerEffect_def terminate_def postMessage_def newWorker_def deliver_def)

theorem recipe_change_recreates_handle_witness:
  "live demo \<and> createWorkerDep demo \<noteq> 1 \<and> status (state demo) = pending
   \<and> inputDep demo = 5 \<and> worker demo = 0
   \<and> \<not> isl (update 1 5 demo)
   \<and> terminated (heap (projr (update 1 5 demo)) 0)
   \<and> deliver 0 (MessageEvent (Some 7)) (projr (update 1 5 demo)) = Inr (projr (update 1 5 demo))
   \<and> createdBy (heap (projr (update 1 5 demo)) (worker (projr (update 1 5 demo)))) = 1
   \<and> posted (heap (projr (update 1 5 demo)) (worker (projr (update 1 5 demo)))) = []
   \<and> state (projr (update 1 5 demo)) = state demo
   \<and> posted (heap (projr (update 1 6 demo)) (worker (projr (update 1 6 demo)))) = [6]"
proof -
  have d: "createWorkerDep demo \<noteq> 1" "status (state demo) = pending" "inputDep demo = 5"
    "worker demo = 0"
    by (simp_all add: hook_defs Let_def)
  from recipe_change_recreates_handle [of demo 1 5] demo_live d
  obtain h1 where h1: "update 1 5 demo = Inr h1" "terminated (heap h1 0)"
    "deliver 0 (MessageEvent (Some 7)) h1 = Inr h1"
    "createdBy (heap h1 (worker h1)) = 1" "posted (heap h1 (worker h1)) = []"
    "state h1 = state demo"
    by auto
  from recipe_change_recreates_handle [of demo 1 6] demo_live d
  obtain h2 where h2: "update 1 6 demo = Inr h2" "posted (heap h2 (worker h2)) = [6]"
    by auto
  from demo_live d h1 h2 show ?thesis by simp
qed

text \<open>
  C4 as the specification states it fails: mount with factory 0 and input 5, so that the
  request is pending, then render with factory 1 and the same input. The new worker, at
  address 1 and made by factory 1, has been posted nothing, and the status is still
  pending.
\<close>

theorem recipe_change_resend_counterexample:
  "\<not> isl (run [Render 1 5] (mount (0::nat) (5::nat) (None :: nat partial_state option)))
   \<and> status (state demo) = pending
   \<and> createWorkerDep demo = 0
   \<and> worker (projr (run [Render 1 5]
        (mount (0::nat) (5::nat) (None :: nat partial_state option)))) = 1
   \<and> createdBy (heap (projr (run [Render 1 5]
        (mount (0::nat) (5::nat) (None :: nat partial_state option)))) 1) = 1
   \<and> posted (heap (projr (run [Render 1 5]
        (mount (0::nat) (5::nat) (None :: nat partial_state option)))) 1) = []
   \<and> 5 \<notin> set (posted (heap (projr (run [Render 1 5]
        (mount (0::nat) (5::nat) (None :: nat partial_state option)))) 1))
   \<and> status (state (projr (run [Render 1 5]
        (mount (0::nat) (5::nat) (None :: nat partial_state option))))) = pending"
  by (simp add: hook_defs Let_def)

text \<open>
  C6 at the input where the code leaves it: mount with input 1, let the worker answer 7,
  then change the input to 2 and, before any answer, to 3. The second change finds the
  status stale, not resolved, and dispatches Pending, although by the specification's
  criterion a resolved value exists when it is dispatched (and the state still holds 7).
\<close>

theorem second_input_change_dispatches_pending:
  "\<not> isl (run [Deliver 0 (MessageEvent (Some 7)), Render 0 2, Render 0 3]
             (mount (0::nat) (1::nat) (None :: nat partial_state option)))
   \<and> dispatched (projr (run [Deliver 0 (MessageEvent (Some 7)), Render 0 2, Render 0 3]
             (mount (0::nat) (1::nat) (None :: nat partial_state option))))
       = [Pending, Resolved (Some 7), Stale] @ [Pending]
   \<and> spec_resolvedSinceBaseline [Pending, Resolved (Some (7::nat)), Stale]
   \<and> state (projr (run [Deliver 0 (MessageEvent (Some 7)), Render 0 2, Render 0 3]
             (mount (0::nat) (1::nat) (None :: nat partial_state option))))
       = \<lparr>status = pending, result = Some 7, error = None\<rparr>"
  by (simp add: hook_defs Let_def spec_resolvedSinceBaseline_def)

section \<open>Properties of the worker entry\<close>

lemma receive_returns:
  "self_onmessage sc = Some func \<Longrightarrow> func x = Inr r \<Longrightarrow>
     receive x sc = (Some (Returned Fulfilled), sc\<lparr>outbox := outbox sc @ [r]\<rparr>)"
  by (simp add: receive_def handler_def handlerBody_def async_def)

lemma receive_throws:
  "self_onmessage sc = Some func \<Longrightarrow> func x = Inl e \<Longrightarrow>
     receive x sc = (Some (Returned (RejectedWith e)), sc)"
  by (simp add: receive_def handler_def handlerBody_def async_def)

lemma receiveAll_total:
  "self_onmessage sc = Some (\<lambda>x. Inr (f x)) \<Longrightarrow>
     receiveAll xs sc = sc\<lparr>outbox := outbox sc @ map f xs\<rparr>"
  by (induction xs arbitrary: sc) (simp_all add: receive_returns)

text \<open>
  C7: on a message with payload \<open>x\<close> on which the caller's function returns \<open>r\<close>, the
  handler \<^verbatim>\<open>registerWorker\<close> installed posts exactly the one message \<open>r\<close>, within the call
  of the handler, and changes nothing else of the scope; this holds whatever the scope
  posted before, so the response depends on \<open>x\<close> and the function only. For a total
  function \<open>f\<close> the messages \<open>xs\<close> are answered by \<open>map f xs\<close>, one response each, in order.
\<close>

theorem registerWorker_one_response:
  "(func x = Inr r \<longrightarrow>
      receive x (registerWorker func sc)
        = (Some (Returned Fulfilled), (registerWorker func sc)\<lparr>outbox := outbox sc @ [r]\<rparr>))
   \<and> (self_onmessage sc' = Some func \<and> func x = Inr r \<longrightarrow>
      outbox (snd (receive x sc')) = outbox sc' @ [r]
      \<and> self_onmessage (snd (receive x sc')) = Some func)
   \<and> receiveAll xs (registerWorker (\<lambda>x. Inr (f x)) sc)
       = (registerWorker (\<lambda>x. Inr (f x)) sc)\<lparr>outbox := outbox sc @ map f xs\<rparr>"
  by (auto simp: receive_returns receiveAll_total registerWorker_def)

theorem registerWorker_one_response_witness:
  "throwingFunc 4 = Inr (Some 25)
   \<and> receive 4 (registerWorker throwingFunc \<lparr>self_onmessage = None, outbox = []\<rparr>)
       = (Some (Returned Fulfilled),
          \<lparr>self_onmessage = Some throwingFunc, outbox = [Some 25]\<rparr>)
   \<and> self_onmessage \<lparr>self_onmessage = Some throwingFunc, outbox = [Some 50, Some 20]\<rparr>
       = Some throwingFunc
   \<and> outbox (snd (receive 4
        \<lparr>self_onmessage = Some throwingFunc, outbox = [Some 50, Some 20]\<rparr>))
       = [Some 50, Some 20, Some 25]
   \<and> outbox (receiveAll [1, 2, 3]
        (registerWorker (\<lambda>x. Inr (Some (Suc x))) \<lparr>self_onmessage = None, outbox = []\<rparr>))
       = [Some 2, Some 3, Some 4]"
proof -
  have r: "throwingFunc 4 = Inr (Some 25)"
    by (simp add: throwingFunc_def)
  from r registerWorker_one_response
    [of throwingFunc 4 "Some 25" "\<lparr>self_onmessage = None, outbox = []\<rparr>"
      "\<lparr>self_onmessage = Some throwingFunc, outbox = [Some 50, Some 20]\<rparr>" "[1, 2, 3]"
      "\<lambda>x. Some (Suc x)"]
  show ?thesis by (simp add: registerWorker_def)
qed

text \<open>
  What the main thread does when the error event of a worker reaches it: the observer
  ignores the event and dispatches Rejected with the fixed error \<^verbatim>\<open>Worker error\<close>.
\<close>

lemma fault_observer_generic:
  "live h \<Longrightarrow> onerror (heap h w) = Some (\<lambda>_. Rejected (Some (Error ''Worker error''))) \<Longrightarrow>
     fire w (ErrorEvent c) h =
       Inr (h\<lparr>state := \<lparr>status = rejected, result = None,
                         error = Some (Error ''Worker error'')\<rparr>,
              dispatched := dispatched h @ [Rejected (Some (Error ''Worker error''))]\<rparr>)"
  by (simp add: fire_def live_def dispatch_def useSafeDispatch_def unsafeDispatch_def
      workerMessageReducer_def)

text \<open>
  C8 at the input where the code leaves it: the caller's function throws on the message 0.
  The handler is an async function, so its call returns a promise rejected with that
  error instead of throwing; the scope posts nothing, the host has no exception of the
  handler to report, no event reaches the worker object of the main thread, and the hook
  that sent the message stays pending with no error.
\<close>

theorem throw_becomes_promise_rejection:
  "throwingFunc 0 = Inl (Error ''division by zero'')
   \<and> receive 0 (registerWorker throwingFunc \<lparr>self_onmessage = None, outbox = []\<rparr>)
       = (Some (Returned (RejectedWith (Error ''division by zero''))),
          \<lparr>self_onmessage = Some throwingFunc, outbox = []\<rparr>)
   \<and> reported (fst (receive 0
        (registerWorker throwingFunc \<lparr>self_onmessage = None, outbox = []\<rparr>))) = None
   \<and> answer 0 (registerWorker throwingFunc \<lparr>self_onmessage = None, outbox = []\<rparr>) = []
   \<and> posted (heap (projr (mount 0 (0::nat) (None :: nat partial_state option))) 0) = [0]
   \<and> state (projr (run
        (map (Deliver 0)
          (answer 0 (registerWorker throwingFunc \<lparr>self_onmessage = None, outbox = []\<rparr>)))
        (mount 0 (0::nat) (None :: nat partial_state option))))
       = \<lparr>status = pending, result = None, error = None\<rparr>"
  by (simp add: receive_def handler_def handlerBody_def async_def registerWorker_def
      answer_def throwingFunc_def hook_defs Let_def)

end
